theory Spec2Isabelle
  imports Main "HOL-Library.Multiset"
begin

section \<open>The FabLab barcode plugin (InvenTree/plugins/fablab\_barcode.py)\<close>

subsection \<open>Exceptions\<close>

text \<open>
  The exceptions that travel through \<open>getPart\<close>. \<open>ValueError\<close>,
  \<open>DoesNotExist\<close> and \<open>MultipleObjectsReturned\<close> are what the lookup
  \<^verbatim>\<open>Part.objects.get(...)\<close> may raise; \<open>ValidationError\<close> is the one
  \<open>getPart\<close> raises itself. Its payload in the source is the set literal
  \<^verbatim>\<open>{'part', 'Part does not exist'}\<close>, hence a set of strings.
  \<open>OtherException\<close> stands for any exception class the source does not name.
\<close>

datatype exn =
    ValueError
  | DoesNotExist
  | MultipleObjectsReturned
  | ValidationError "string set"
  | OtherException string

subsection \<open>validate\<close>

text \<open>
  \<^verbatim>\<open>BARCODE_STANDARDS = ['EAN', 'EAN13', 'EAN8', 'UPC']\<close>
\<close>

definition BARCODE_STANDARDS :: "string list" where
  "BARCODE_STANDARDS = [''EAN'', ''EAN13'', ''EAN8'', ''UPC'']"

text \<open>
  \<^verbatim>\<open>
  def validate(self):
      for codeType in self.BARCODE_STANDARDS:
          if barcodenumber.check_code(codeType, self.data):
              return True
      return False
  \<close>
  \<open>barcodenumber.check_code\<close> belongs to an external library; it is the
  parameter \<open>check_code\<close>, a function of the standard's name and the scanned
  data. The attribute \<open>self.BARCODE_STANDARDS\<close> is the list argument and
  \<open>self.data\<close> the string argument. The loop leaves at the first standard that
  accepts.
\<close>

fun validate :: "(string \<Rightarrow> string \<Rightarrow> bool) \<Rightarrow> string list \<Rightarrow> string \<Rightarrow> bool" where
  "validate check_code [] data = False"
| "validate check_code (codeType # rest) data =
     (if check_code codeType data then True else validate check_code rest data)"

subsection \<open>The entity lookup\<close>

text \<open>
  A row of the Part table, as far as the plugin reads it: the primary key and the
  internal part number (IPN).
\<close>

record Part =
  part_pk :: nat
  IPN :: string

text \<open>
  Modelled from the spec: the persistence layer's lookup
  \<^verbatim>\<open>Part.objects.get(IPN__iexact=...)\<close>, whose code is not part of the plugin. The
  spec (4.1, 6) describes it as a case-insensitive exact match against the identifier
  field with an "expected exactly one" contract: no match and several matches are two
  distinct failures. Case is folded on the ASCII letters.
\<close>

definition lower_char :: "char \<Rightarrow> char" where
  "lower_char c =
     (case map_of (zip ''ABCDEFGHIJKLMNOPQRSTUVWXYZ'' ''abcdefghijklmnopqrstuvwxyz'') c of
        Some l \<Rightarrow> l
      | None \<Rightarrow> c)"

definition iexact :: "string \<Rightarrow> string \<Rightarrow> bool" where
  "iexact field value = (map lower_char field = map lower_char value)"

definition matching :: "Part list \<Rightarrow> string \<Rightarrow> Part list" where
  "matching parts data = filter (\<lambda>p. iexact (IPN p) data) parts"

definition objects_get :: "Part list \<Rightarrow> string \<Rightarrow> exn + Part" where
  "objects_get parts data =
     (case matching parts data of
        [] \<Rightarrow> Inl DoesNotExist
      | [part] \<Rightarrow> Inr part
      | _ # _ # _ \<Rightarrow> Inl MultipleObjectsReturned)"

subsection \<open>getPart\<close>

text \<open>
  \<^verbatim>\<open>
  def getPart(self):
      try:
          part = Part.objects.get(IPN__iexact=self.data)
          return part
      except (ValueError, Part.DoesNotExist):
          raise ValidationError({'part', 'Part does not exist'})
  \<close>
  The lookup is the parameter \<open>get\<close>. The handler catches exactly two exception
  classes; every other exception of the lookup leaves \<open>getPart\<close> as it is.
\<close>

definition getPart :: "(string \<Rightarrow> exn + Part) \<Rightarrow> string \<Rightarrow> exn + Part" where
  "getPart get data =
     (case get data of
        Inr part \<Rightarrow> Inr part
      | Inl e \<Rightarrow>
          if e = ValueError \<or> e = DoesNotExist
          then Inl (ValidationError {''part'', ''Part does not exist''})
          else Inl e)"

subsection \<open>resolve\<close>

datatype resolve_error =
    InvalidScanError
  | NotFoundError
  | LookupFailure exn

text \<open>
  How the typed outcomes of the spec (7, 9) read the exceptions of \<open>getPart\<close>: its
  \<open>ValidationError\<close> is the spec's NotFoundError; any other exception reaches the
  caller as the failure it is.
\<close>

fun lookup_error :: "exn \<Rightarrow> resolve_error" where
  "lookup_error (ValidationError detail) = NotFoundError"
| "lookup_error e = LookupFailure e"

text \<open>
  Modelled from the spec: \<open>resolve\<close>, the caller that runs \<open>validate\<close> and then the
  lookup; the plugin defines the two steps and leaves their composition to the scan
  handler, which is not in the plugin's file. Spec 4.1: "first calls validate; if
  invalid, fails with InvalidScanError. If valid, performs a case-insensitive
  exact-match lookup of the scan string against the entity's normalized identifier
  field. Fails with NotFoundError if zero entities match", and several matches
  "must propagate as an error, not be swallowed". The two steps themselves are the
  source's \<open>validate\<close> (on the plugin's \<open>BARCODE_STANDARDS\<close>) and \<open>getPart\<close>.
\<close>

definition resolve :: "(string \<Rightarrow> string \<Rightarrow> bool) \<Rightarrow> Part list \<Rightarrow> string \<Rightarrow> resolve_error + Part" where
  "resolve check_code parts scan =
     (if \<not> validate check_code BARCODE_STANDARDS scan then Inl InvalidScanError
      else case getPart (objects_get parts) scan of
             Inr entity \<Rightarrow> Inr entity
           | Inl e \<Rightarrow> Inl (lookup_error e))"

section \<open>The OwnershipGate\<close>

text \<open>
  stock/test\_views.py exercises the OwnershipGate through the stock views and sets up
  its users, groups and owners; the Owner model, the settings store and the stock
  forms themselves live elsewhere in the application. Each definition below follows
  the words of the spec it quotes, and the fixtures follow the test.
\<close>

subsection \<open>Data\<close>

text \<open>
  Modelled from the spec: the ActorOrGroupHandle of 4.2, a reference to an individual
  actor or to a group, by name as the test creates them (\<^verbatim>\<open>username='john'\<close>,
  \<^verbatim>\<open>name='new_group'\<close>).
\<close>

datatype handle = ActorHandle string | GroupHandle string

text \<open>
  Modelled from the spec: the Owner of 3, "a reference to either an individual actor
  or a group of actors". The test passes an owner by its primary key
  (\<^verbatim>\<open>'owner': new_user_as_owner.pk\<close>), so an Owner carries one.
\<close>

record Owner =
  owner_pk :: nat
  owner_handle :: handle

text \<open>
  Modelled from the spec: what the OwnershipGate reads from its collaborators (6): the
  OwnershipPolicy flag of the settings store (\<open>STOCK_OWNERSHIP_CONTROL\<close>), the owner
  directory of the persistence layer, and the group subsystem's "actor belongs to
  group" predicate (9), taken as given.
\<close>

record Gate =
  ownership_control :: bool
  directory :: "Owner list"
  belongs_to :: "string \<Rightarrow> string \<Rightarrow> bool"

text \<open>
  Modelled from the spec: the Entity of 3 as the OwnershipGate sees it, a record with an
  optional stored owner reference.
\<close>

record Entity =
  entity_id :: nat
  entity_owner :: "nat option"

text \<open>
  Modelled from the spec: the MutationRequest of 3, "a proposed create/update of an
  entity carrying an optional owner field"; an update names the entity it targets.
\<close>

datatype mutation = Create | Update Entity

record MutationRequest =
  target :: mutation
  owner :: "nat option"

text \<open>
  Modelled from the spec: the result of \<open>authorizeMutation\<close> (4.2),
  \<open>Accepted | Rejected(reason)\<close>.
\<close>

datatype decision = Accepted | Rejected string

subsection \<open>Operations\<close>

text \<open>
  Modelled from the spec: \<open>isEnabled\<close> (4.2), "reads current OwnershipPolicy flag".
\<close>

definition isEnabled :: "Gate \<Rightarrow> bool" where
  "isEnabled g = ownership_control g"

text \<open>
  Modelled from the spec: \<open>Owner.get_owner\<close>, the spec's \<open>resolveOwner\<close> (3, 4.2, 6):
  the canonical lookup of a handle in the owner directory. The directory is threaded
  through the call, so that two calls in a row can be written down; the lookup reads
  it and hands it back.
\<close>

definition get_owner :: "handle \<Rightarrow> Owner list \<Rightarrow> Owner option \<times> Owner list" where
  "get_owner h dir = (find (\<lambda>ow. owner_handle ow = h) dir, dir)"

text \<open>
  Modelled from the spec: resolving the \<open>owner\<close> field of a request, a primary key,
  to the Owner it names (4.2, step 3: "request.owner does not resolve ...").
\<close>

definition owner_by_pk :: "Owner list \<Rightarrow> nat \<Rightarrow> Owner option" where
  "owner_by_pk dir k = find (\<lambda>ow. owner_pk ow = k) dir"

text \<open>
  Modelled from the spec: an Owner is related to a user when it is "the acting user
  (or their group)" (8).
\<close>

definition related :: "Gate \<Rightarrow> string \<Rightarrow> Owner \<Rightarrow> bool" where
  "related g user ow =
     (case owner_handle ow of
        ActorHandle a \<Rightarrow> a = user
      | GroupHandle grp \<Rightarrow> belongs_to g user grp)"

text \<open>
  Modelled from the spec: a valid owner (4.2, step 3; 7: "owner unresolvable or
  disallowed"): the reference resolves, and to an Owner related to the acting user.
\<close>

definition valid_owner :: "Gate \<Rightarrow> string \<Rightarrow> nat \<Rightarrow> bool" where
  "valid_owner g user k =
     (case owner_by_pk (directory g) k of
        None \<Rightarrow> False
      | Some ow \<Rightarrow> related g user ow)"

text \<open>
  Modelled from the spec: "permission over the current owner" (4.2) of an entity: an
  entity without a stored owner is open, otherwise its owner must be valid for the
  user.
\<close>

definition may_change :: "Gate \<Rightarrow> string \<Rightarrow> Entity \<Rightarrow> bool" where
  "may_change g user entity =
     (case entity_owner entity of
        None \<Rightarrow> True
      | Some k \<Rightarrow> valid_owner g user k)"

text \<open>
  Modelled from the spec: \<open>authorizeMutation\<close> (4.2):
  \<^enum> "If policy disabled: Accepted regardless of owner field."
  \<^enum> "If policy enabled and request.owner is absent: Rejected("owner required")."
  \<^enum> "If policy enabled and request.owner does not resolve to a valid Owner for the
    target entity type: Rejected("invalid owner")."
  \<^enum> "Else: Accepted",
  with the further rule that "an update mutation from an actor lacking permission over
  the current owner must be rejected". The spec names no reason for this last
  rejection; the string used here is a placeholder of the model.
\<close>

definition authorizeMutation :: "Gate \<Rightarrow> MutationRequest \<Rightarrow> string \<Rightarrow> decision" where
  "authorizeMutation g request actingUser =
     (if \<not> isEnabled g then Accepted
      else case owner request of
        None \<Rightarrow> Rejected ''owner required''
      | Some k \<Rightarrow>
          if \<not> valid_owner g actingUser k then Rejected ''invalid owner''
          else case target request of
            Create \<Rightarrow> Accepted
          | Update entity \<Rightarrow>
              if may_change g actingUser entity then Accepted
              else Rejected ''no permission over the current owner'')"


subsection \<open>The fixtures of the ownership test\<close>

text \<open>
  stock/test\_views.py, \<open>setUp\<close>: the user \<open>username\<close> in the group \<open>mygroup\<close>, the user
  \<open>john\<close> in the group \<open>new_group\<close>, and an Owner for each of the four
  (\<open>user_as_owner\<close>, \<open>user_group_owner\<close>, \<open>new_user_as_owner\<close>,
  \<open>new_user_group_owner\<close>). \<open>enable_ownership\<close> sets the flag.
\<close>

definition user_as_owner :: Owner where
  "user_as_owner = \<lparr>owner_pk = 1, owner_handle = ActorHandle ''username''\<rparr>"

definition user_group_owner :: Owner where
  "user_group_owner = \<lparr>owner_pk = 2, owner_handle = GroupHandle ''mygroup''\<rparr>"

definition new_user_as_owner :: Owner where
  "new_user_as_owner = \<lparr>owner_pk = 3, owner_handle = ActorHandle ''john''\<rparr>"

definition new_user_group_owner :: Owner where
  "new_user_group_owner = \<lparr>owner_pk = 4, owner_handle = GroupHandle ''new_group''\<rparr>"

definition test_gate :: "bool \<Rightarrow> Gate" where
  "test_gate enabled =
     \<lparr>ownership_control = enabled,
      directory = [user_as_owner, user_group_owner, new_user_as_owner, new_user_group_owner],
      belongs_to = (\<lambda>user grp. (user = ''username'' \<and> grp = ''mygroup'')
                               \<or> (user = ''john'' \<and> grp = ''new_group''))\<rparr>"

section \<open>Properties of validate\<close>

lemma validate_iff_accepts:
  "validate check_code standards data \<longleftrightarrow> (\<exists>s \<in> set standards. check_code s data)"
  by (induction standards) auto

text \<open>
  C2: for every scan string, \<open>validate\<close> returns true if and only if at least one of
  the configured standards' checksum rules accepts the string, and false exactly when
  every configured standard rejects it.
\<close>

theorem validate_true_iff_some_standard_accepts:
  "(validate check_code standards data = True
      \<longleftrightarrow> (\<exists>s \<in> set standards. check_code s data))
   \<and> (validate check_code standards data = False
      \<longleftrightarrow> (\<forall>s \<in> set standards. \<not> check_code s data))"
  by (simp add: validate_iff_accepts)

theorem validate_true_iff_some_standard_accepts_witness:
  "validate (\<lambda>s d. s = ''EAN13'' \<and> d = ''5012345678900'') BARCODE_STANDARDS ''5012345678900'' = True
   \<and> (\<exists>s \<in> set BARCODE_STANDARDS. s = ''EAN13'' \<and> ''5012345678900'' = ''5012345678900'')
   \<and> validate (\<lambda>s d. s = ''EAN13'' \<and> d = ''5012345678900'') BARCODE_STANDARDS ''not-a-barcode'' = False
   \<and> \<not> (\<exists>s \<in> set BARCODE_STANDARDS. s = ''EAN13'' \<and> ''not-a-barcode'' = ''5012345678900'')"
  using validate_true_iff_some_standard_accepts
          [of "\<lambda>s d. s = ''EAN13'' \<and> d = ''5012345678900''" BARCODE_STANDARDS "''5012345678900''"]
        validate_true_iff_some_standard_accepts
          [of "\<lambda>s d. s = ''EAN13'' \<and> d = ''5012345678900''" BARCODE_STANDARDS "''not-a-barcode''"]
  by (simp add: BARCODE_STANDARDS_def)

text \<open>
  C8: the result of \<open>validate\<close> does not depend on the order of the configured
  standards: on every permutation of the sequence it returns the same boolean.
\<close>

theorem validate_order_independent:
  "mset standards' = mset standards \<Longrightarrow>
   validate check_code standards' data = validate check_code standards data"
proof -
  assume "mset standards' = mset standards"
  then have "set standards' = set standards"
    by (rule mset_eq_setD)
  then show ?thesis
    by (simp add: validate_iff_accepts)
qed

theorem validate_order_independent_witness:
  "mset [''UPC'', ''EAN8'', ''EAN13'', ''EAN''] = mset BARCODE_STANDARDS
   \<and> validate (\<lambda>s d. s = ''EAN13'' \<and> d = ''5012345678900'') [''UPC'', ''EAN8'', ''EAN13'', ''EAN'']
        ''5012345678900''
     = validate (\<lambda>s d. s = ''EAN13'' \<and> d = ''5012345678900'') BARCODE_STANDARDS ''5012345678900''"
proof -
  have p: "mset [''UPC'', ''EAN8'', ''EAN13'', ''EAN''] = mset BARCODE_STANDARDS"
    by (simp add: BARCODE_STANDARDS_def)
  show ?thesis
    using p validate_order_independent [OF p, of "\<lambda>s d. s = ''EAN13'' \<and> d = ''5012345678900''" "''5012345678900''"]
    by simp
qed

section \<open>Properties of getPart and resolve\<close>

lemma objects_get_none:
  "matching parts data = [] \<Longrightarrow> objects_get parts data = Inl DoesNotExist"
  by (simp add: objects_get_def)


lemma objects_get_many:
  "2 \<le> length (matching parts data) \<Longrightarrow> objects_get parts data = Inl MultipleObjectsReturned"
  by (auto simp: objects_get_def split: list.splits)

lemma getPart_none:
  "matching parts data = [] \<Longrightarrow>
   getPart (objects_get parts) data = Inl (ValidationError {''part'', ''Part does not exist''})"
  by (simp add: getPart_def objects_get_none)


lemma getPart_many:
  "2 \<le> length (matching parts data) \<Longrightarrow>
   getPart (objects_get parts) data = Inl MultipleObjectsReturned"
  by (simp add: getPart_def objects_get_many)


text \<open>
  C10: \<open>getPart\<close> reports the same error for a malformed lookup value as for a
  missing entity. Whenever the lookup raises ValueError or finds no matching Part,
  \<open>getPart\<close> raises the one ValidationError with 'Part does not exist', so the two
  causes give equal results.
\<close>

theorem getPart_malformed_same_as_missing:
  "(get data = Inl ValueError \<or> get data = Inl DoesNotExist \<longrightarrow>
      getPart get data = Inl (ValidationError {''part'', ''Part does not exist''}))
   \<and> (matching parts data = [] \<longrightarrow>
      getPart (objects_get parts) data = Inl (ValidationError {''part'', ''Part does not exist''}))
   \<and> (get malformed = Inl ValueError \<and> get' missing = Inl DoesNotExist \<longrightarrow>
      getPart get malformed = getPart get' missing)"
  by (auto simp: getPart_def objects_get_none)

theorem getPart_malformed_same_as_missing_witness:
  "(\<lambda>d. if d = ''bad'' then Inl ValueError else objects_get [] d) ''bad'' = Inl ValueError
   \<and> objects_get [] ''5012345678900'' = Inl DoesNotExist
   \<and> matching [] ''5012345678900'' = []
   \<and> getPart (\<lambda>d. if d = ''bad'' then Inl ValueError else objects_get [] d) ''bad''
       = Inl (ValidationError {''part'', ''Part does not exist''})
   \<and> getPart (objects_get []) ''5012345678900''
       = Inl (ValidationError {''part'', ''Part does not exist''})
   \<and> getPart (\<lambda>d. if d = ''bad'' then Inl ValueError else objects_get [] d) ''bad''
       = getPart (objects_get []) ''5012345678900''"
  using getPart_malformed_same_as_missing
          [of "\<lambda>d. if d = ''bad'' then Inl ValueError else objects_get [] d" "''bad''"
              "[]" "''bad''" "objects_get []" "''5012345678900''"]
        getPart_malformed_same_as_missing
          [of "objects_get []" "''5012345678900''" "[]" "''bad''" "objects_get []" "''5012345678900''"]
  by (simp add: objects_get_def matching_def)

lemma resolve_invalid:
  "\<not> validate check_code BARCODE_STANDARDS scan \<Longrightarrow>
   resolve check_code parts scan = Inl InvalidScanError"
  by (simp add: resolve_def)





text \<open>
  C4: if the lookup finds more than one entity matching the code, the "multiple
  results" failure of the lookup reaches the caller as an error: \<open>getPart\<close> does not
  catch it, and \<open>resolve\<close> neither returns one of the matching entities nor turns the
  condition into a NotFoundError.
\<close>

theorem resolve_multiple_results_propagate:
  "2 \<le> length (matching parts scan) \<Longrightarrow>
     getPart (objects_get parts) scan = Inl MultipleObjectsReturned
   \<and> (validate check_code BARCODE_STANDARDS scan \<longrightarrow>
        resolve check_code parts scan = Inl (LookupFailure MultipleObjectsReturned))
   \<and> resolve check_code parts scan \<noteq> Inl NotFoundError
   \<and> (\<forall>entity. resolve check_code parts scan \<noteq> Inr entity)"
proof -
  assume many: "2 \<le> length (matching parts scan)"
  have g: "getPart (objects_get parts) scan = Inl MultipleObjectsReturned"
    using many by (rule getPart_many)
  show ?thesis
  proof (cases "validate check_code BARCODE_STANDARDS scan")
    case True
    then have "resolve check_code parts scan = Inl (LookupFailure MultipleObjectsReturned)"
      by (simp add: resolve_def g)
    with g show ?thesis by simp
  next
    case False
    then have "resolve check_code parts scan = Inl InvalidScanError"
      by (rule resolve_invalid)
    with g False show ?thesis by simp
  qed
qed

theorem resolve_multiple_results_propagate_witness:
  "2 \<le> length (matching [\<lparr>part_pk = 1, IPN = ''5012345678900''\<rparr>,
                           \<lparr>part_pk = 2, IPN = ''5012345678900''\<rparr>] ''5012345678900'')
   \<and> validate (\<lambda>s d. s = ''EAN13'' \<and> d = ''5012345678900'') BARCODE_STANDARDS ''5012345678900''
   \<and> getPart (objects_get [\<lparr>part_pk = 1, IPN = ''5012345678900''\<rparr>,
                            \<lparr>part_pk = 2, IPN = ''5012345678900''\<rparr>]) ''5012345678900''
       = Inl MultipleObjectsReturned
   \<and> resolve (\<lambda>s d. s = ''EAN13'' \<and> d = ''5012345678900'')
        [\<lparr>part_pk = 1, IPN = ''5012345678900''\<rparr>, \<lparr>part_pk = 2, IPN = ''5012345678900''\<rparr>]
        ''5012345678900''
       = Inl (LookupFailure MultipleObjectsReturned)"
proof -
  have many: "2 \<le> length (matching [\<lparr>part_pk = 1, IPN = ''5012345678900''\<rparr>,
                           \<lparr>part_pk = 2, IPN = ''5012345678900''\<rparr>] ''5012345678900'')"
    by (simp add: matching_def iexact_def)
  have ok: "validate (\<lambda>s d. s = ''EAN13'' \<and> d = ''5012345678900'') BARCODE_STANDARDS ''5012345678900''"
    by (simp add: BARCODE_STANDARDS_def)
  show ?thesis
    using many ok
      resolve_multiple_results_propagate
        [OF many, of "\<lambda>s d. s = ''EAN13'' \<and> d = ''5012345678900''"]
    by simp
qed




section \<open>Properties of the OwnershipGate\<close>

lemmas fixture_defs =
  test_gate_def user_as_owner_def user_group_owner_def new_user_as_owner_def
  new_user_group_owner_def

lemma authorize_enabled_no_owner:
  "isEnabled g \<Longrightarrow> owner request = None \<Longrightarrow>
   authorizeMutation g request user = Rejected ''owner required''"
  by (simp add: authorizeMutation_def)

lemma authorize_enabled_create:
  "isEnabled g \<Longrightarrow> target request = Create \<Longrightarrow> owner request = Some k \<Longrightarrow>
   authorizeMutation g request user =
     (if valid_owner g user k then Accepted else Rejected ''invalid owner'')"
  by (simp add: authorizeMutation_def)

lemma valid_owner_resolved:
  "owner_by_pk (directory g) k = Some ow \<Longrightarrow> valid_owner g user k = related g user ow"
  by (simp add: valid_owner_def)

text \<open>
  C1: with the ownership policy enabled, a create-mutation without an owner is rejected
  ("owner required"); one whose owner resolves to an actor or group unrelated to the
  acting user is rejected ("invalid owner"); one whose owner resolves to the acting
  user or to a group of theirs is accepted.
\<close>

theorem authorize_create_enabled:
  "isEnabled g \<Longrightarrow> target request = Create \<Longrightarrow>
     (owner request = None \<longrightarrow>
        authorizeMutation g request user = Rejected ''owner required'')
   \<and> (owner request = Some k \<and> owner_by_pk (directory g) k = Some ow
        \<and> owner_handle ow \<noteq> ActorHandle user
        \<and> (\<forall>grp. owner_handle ow = GroupHandle grp \<longrightarrow> \<not> belongs_to g user grp) \<longrightarrow>
        authorizeMutation g request user = Rejected ''invalid owner'')
   \<and> (owner request = Some k \<and> owner_by_pk (directory g) k = Some ow
        \<and> owner_handle ow = ActorHandle user \<longrightarrow>
        authorizeMutation g request user = Accepted)
   \<and> (owner request = Some k \<and> owner_by_pk (directory g) k = Some ow
        \<and> owner_handle ow = GroupHandle grp \<and> belongs_to g user grp \<longrightarrow>
        authorizeMutation g request user = Accepted)"
proof -
  assume on: "isEnabled g" and create: "target request = Create"
  have none: "owner request = None \<longrightarrow>
      authorizeMutation g request user = Rejected ''owner required''"
    using on by (simp add: authorize_enabled_no_owner)
  have unrelated: "owner request = Some k \<and> owner_by_pk (directory g) k = Some ow
        \<and> owner_handle ow \<noteq> ActorHandle user
        \<and> (\<forall>grp. owner_handle ow = GroupHandle grp \<longrightarrow> \<not> belongs_to g user grp) \<longrightarrow>
        authorizeMutation g request user = Rejected ''invalid owner''"
    using on create
    by (auto simp: authorize_enabled_create valid_owner_resolved related_def split: handle.splits)
  have self: "owner request = Some k \<and> owner_by_pk (directory g) k = Some ow
        \<and> owner_handle ow = ActorHandle user \<longrightarrow>
        authorizeMutation g request user = Accepted"
    using on create
    by (simp add: authorize_enabled_create valid_owner_resolved related_def)
  have grp: "owner request = Some k \<and> owner_by_pk (directory g) k = Some ow
        \<and> owner_handle ow = GroupHandle grp \<and> belongs_to g user grp \<longrightarrow>
        authorizeMutation g request user = Accepted"
    using on create
    by (simp add: authorize_enabled_create valid_owner_resolved related_def)
  from none unrelated self grp show ?thesis by blast
qed

theorem authorize_create_enabled_witness:
  "isEnabled (test_gate True)
   \<and> owner_by_pk (directory (test_gate True)) (owner_pk user_as_owner) = Some user_as_owner
   \<and> owner_by_pk (directory (test_gate True)) (owner_pk new_user_as_owner)
       = Some new_user_as_owner
   \<and> owner_by_pk (directory (test_gate True)) (owner_pk new_user_group_owner)
       = Some new_user_group_owner
   \<and> belongs_to (test_gate True) ''john'' ''new_group''
   \<and> authorizeMutation (test_gate True) \<lparr>target = Create, owner = None\<rparr> ''john''
       = Rejected ''owner required''
   \<and> authorizeMutation (test_gate True)
        \<lparr>target = Create, owner = Some (owner_pk user_as_owner)\<rparr> ''john''
       = Rejected ''invalid owner''
   \<and> authorizeMutation (test_gate True)
        \<lparr>target = Create, owner = Some (owner_pk new_user_as_owner)\<rparr> ''john''
       = Accepted
   \<and> authorizeMutation (test_gate True)
        \<lparr>target = Create, owner = Some (owner_pk new_user_group_owner)\<rparr> ''john''
       = Accepted"
proof -
  have on: "isEnabled (test_gate True)"
    by (simp add: isEnabled_def test_gate_def)
  have r1: "owner_by_pk (directory (test_gate True)) (owner_pk user_as_owner) = Some user_as_owner"
    by (simp add: owner_by_pk_def fixture_defs)
  have r2: "owner_by_pk (directory (test_gate True)) (owner_pk new_user_as_owner)
      = Some new_user_as_owner"
    by (simp add: owner_by_pk_def fixture_defs)
  have r3: "owner_by_pk (directory (test_gate True)) (owner_pk new_user_group_owner)
      = Some new_user_group_owner"
    by (simp add: owner_by_pk_def fixture_defs)
  have m: "belongs_to (test_gate True) ''john'' ''new_group''"
    by (simp add: test_gate_def)
  have a0: "authorizeMutation (test_gate True) \<lparr>target = Create, owner = None\<rparr> ''john''
      = Rejected ''owner required''"
    using authorize_create_enabled
      [OF on, where request = "\<lparr>target = Create, owner = None\<rparr>" and user = "''john''"]
    by simp
  have a1: "authorizeMutation (test_gate True)
        \<lparr>target = Create, owner = Some (owner_pk user_as_owner)\<rparr> ''john''
      = Rejected ''invalid owner''"
    using r1 authorize_create_enabled
      [OF on, where request = "\<lparr>target = Create, owner = Some (owner_pk user_as_owner)\<rparr>"
         and k = "owner_pk user_as_owner" and ow = user_as_owner and user = "''john''"]
    by (simp add: user_as_owner_def)
  have a2: "authorizeMutation (test_gate True)
        \<lparr>target = Create, owner = Some (owner_pk new_user_as_owner)\<rparr> ''john''
      = Accepted"
    using r2 authorize_create_enabled
      [OF on, where request = "\<lparr>target = Create, owner = Some (owner_pk new_user_as_owner)\<rparr>"
         and k = "owner_pk new_user_as_owner" and ow = new_user_as_owner and user = "''john''"]
    by (simp add: new_user_as_owner_def)
  have a3: "authorizeMutation (test_gate True)
        \<lparr>target = Create, owner = Some (owner_pk new_user_group_owner)\<rparr> ''john''
      = Accepted"
    using r3 m authorize_create_enabled
      [OF on, where request = "\<lparr>target = Create, owner = Some (owner_pk new_user_group_owner)\<rparr>"
         and k = "owner_pk new_user_group_owner" and ow = new_user_group_owner
         and user = "''john''" and grp = "''new_group''"]
    by (simp add: new_user_group_owner_def)
  from on r1 r2 r3 m a0 a1 a2 a3 show ?thesis by simp
qed

text \<open>
  C7: with the ownership policy disabled, \<open>authorizeMutation\<close> accepts every mutation
  request whatever its owner field, also a request that carries no owner.
\<close>

theorem authorize_disabled_accepts:
  "\<not> isEnabled g \<Longrightarrow> authorizeMutation g request user = Accepted"
  by (simp add: authorizeMutation_def)

theorem authorize_disabled_accepts_witness:
  "\<not> isEnabled (test_gate False)
   \<and> authorizeMutation (test_gate False) \<lparr>target = Create, owner = None\<rparr> ''john'' = Accepted"
proof -
  have off: "\<not> isEnabled (test_gate False)"
    by (simp add: isEnabled_def test_gate_def)
  show ?thesis
    using off authorize_disabled_accepts
      [OF off, of "\<lparr>target = Create, owner = None\<rparr>" "''john''"]
    by simp
qed






text \<open>
  C9: owner resolution is idempotent: for every actor or group handle, calling
  \<open>get_owner\<close> twice on the same handle yields Owner values that compare equal (the
  second call runs on the directory the first call leaves).
\<close>

theorem get_owner_idempotent:
  "fst (get_owner h (snd (get_owner h dir))) = fst (get_owner h dir)
   \<and> snd (get_owner h dir) = dir"
  by (simp add: get_owner_def)

theorem get_owner_idempotent_witness:
  "fst (get_owner (ActorHandle ''john'') (directory (test_gate True))) = Some new_user_as_owner
   \<and> fst (get_owner (ActorHandle ''john'')
           (snd (get_owner (ActorHandle ''john'') (directory (test_gate True)))))
       = Some new_user_as_owner
   \<and> fst (get_owner (GroupHandle ''new_group'')
           (snd (get_owner (GroupHandle ''new_group'') (directory (test_gate True)))))
       = Some new_user_group_owner"
proof -
  have a: "fst (get_owner (ActorHandle ''john'') (directory (test_gate True)))
      = Some new_user_as_owner"
    by (simp add: get_owner_def fixture_defs)
  have g: "fst (get_owner (GroupHandle ''new_group'') (directory (test_gate True)))
      = Some new_user_group_owner"
    by (simp add: get_owner_def fixture_defs)
  show ?thesis
    using a g
      get_owner_idempotent [of "ActorHandle ''john''" "directory (test_gate True)"]
      get_owner_idempotent [of "GroupHandle ''new_group''" "directory (test_gate True)"]
    by simp
qed

end
